theory Spec2Isabelle
  imports Main "HOL-Library.Multiset"
begin

section \<open>JavaScript values\<close>

text \<open>
  The free-form JSON columns of the backend rows (\<^verbatim>\<open>data\<close>, \<^verbatim>\<open>metadata\<close>, \<^verbatim>\<open>videos\<close>) are
  dynamically typed. They are modelled by a datatype of JavaScript values; numbers are
  integers, objects are association lists in insertion order.
\<close>

datatype jsval =
    JUndefined
  | JNull
  | JBool bool
  | JNum int
  | JStr string
  | JArr "jsval list"
  | JObj "(string \<times> jsval) list"

text \<open>JavaScript truthiness, as used by \<^verbatim>\<open>||\<close>, \<^verbatim>\<open>&&\<close>, \<^verbatim>\<open>!\<close> and \<^verbatim>\<open>if\<close>.\<close>

fun truthy :: "jsval \<Rightarrow> bool" where
  "truthy JUndefined = False"
| "truthy JNull = False"
| "truthy (JBool b) = b"
| "truthy (JNum n) = (n \<noteq> 0)"
| "truthy (JStr s) = (s \<noteq> [])"
| "truthy (JArr xs) = True"
| "truthy (JObj kvs) = True"

text \<open>\<^verbatim>\<open>a || b\<close> on values.\<close>

definition js_or :: "jsval \<Rightarrow> jsval \<Rightarrow> jsval" where
  "js_or a b = (if truthy a then a else b)"

text \<open>
  \<^verbatim>\<open>v?.k\<close>: undefined on null and undefined, the property otherwise. The property names
  the program reads (\<^verbatim>\<open>title\<close>, \<^verbatim>\<open>content\<close>, \<^verbatim>\<open>metadata\<close>, \<^verbatim>\<open>video\<close>, \<^verbatim>\<open>videos\<close>,
  \<^verbatim>\<open>video_id\<close>) are no properties of arrays or primitive values, so reading them there
  gives undefined. Every plain \<^verbatim>\<open>v.k\<close> of the program is guarded by a truthiness test
  of \<^verbatim>\<open>v\<close>, where it coincides with \<^verbatim>\<open>v?.k\<close>.
\<close>

fun opt_get :: "jsval \<Rightarrow> string \<Rightarrow> jsval" where
  "opt_get (JObj kvs) k = (case map_of kvs k of Some v \<Rightarrow> v | None \<Rightarrow> JUndefined)"
| "opt_get v k = JUndefined"

text \<open>\<^verbatim>\<open>Array.isArray\<close>.\<close>

fun isArray :: "jsval \<Rightarrow> bool" where
  "isArray (JArr xs) = True"
| "isArray v = False"

text \<open>Nullable text columns: \<^verbatim>\<open>string | null\<close>, with the truthiness of strings.\<close>

fun truthy_str :: "string option \<Rightarrow> bool" where
  "truthy_str None = False"
| "truthy_str (Some s) = (s \<noteq> [])"

definition str_or :: "string option \<Rightarrow> string option \<Rightarrow> string option" where
  "str_or a b = (if truthy_str a then a else b)"

section \<open>Learning items: \<^verbatim>\<open>useLearningItemsSubscription\<close>\<close>

text \<open>
  Modelled from the spec: the row type of the \<^verbatim>\<open>items\<close> table, whose declaration
  (\<^verbatim>\<open>integrations/supabase/types\<close>) is not among the sources. A learning item has an
  identifier, the identifier of its paper, a type tag, free-form nested content, and
  creation and update timestamps; the columns carry the names the hook reads. The field
  \<^verbatim>\<open>videos\<close> is the dynamic property \<^verbatim>\<open>item.videos\<close> the code reads; it is
  \<open>JUndefined\<close> when the row has none.
\<close>

record item_row =
  item_id :: string
  paper_id :: string
  item_type :: string
  data :: jsval
  created_at :: "string option"
  updated_at :: "string option"
  videos :: jsval

text \<open>A transformed item: the row with \<^verbatim>\<open>title\<close>, \<^verbatim>\<open>content\<close>, \<^verbatim>\<open>metadata\<close> added.\<close>

record learning_item = item_row +
  title :: jsval
  content :: jsval
  metadata :: jsval

text \<open>
  \<^verbatim>\<open>new Date().toISOString()\<close> is read twice per transformed row; the two readings are
  an explicit argument.
\<close>

type_synonym clock = "string \<times> string"

definition baseItem :: "clock \<Rightarrow> item_row \<Rightarrow> learning_item" where
  "baseItem now item =
     \<lparr> item_id = item_id item,
       paper_id = paper_id item,
       item_type = item_type item,
       data = data item,
       created_at = str_or (created_at item) (Some (fst now)),
       updated_at = str_or (updated_at item) (Some (snd now)),
       videos = videos item,
       title = js_or (opt_get (data item) ''title'') (JStr []),
       content = js_or (opt_get (data item) ''content'') (JStr []),
       metadata = js_or (opt_get (data item) ''metadata'') (JObj []) \<rparr>"

text \<open>
  The transformation of the initial fetch, repeated in the INSERT and UPDATE handlers:
  video rows get \<^verbatim>\<open>videos: item.videos || baseItem.metadata?.videos || null\<close>, every
  other row is the base item.
\<close>

definition transformItem :: "clock \<Rightarrow> item_row \<Rightarrow> learning_item" where
  "transformItem now item =
     (let b = baseItem now item in
      if item_type item = ''video''
      then b\<lparr>videos := js_or (videos item) (js_or (opt_get (metadata b) ''videos'') JNull)\<rparr>
      else b)"

record items_state =
  learningItems :: "learning_item list"
  videoItems :: "learning_item list"
  quizItems :: "learning_item list"
  flashcardItems :: "learning_item list"
  keyConceptsItems :: "learning_item list"
  methodologyItems :: "learning_item list"
  resultsItems :: "learning_item list"
  items_isLoading :: bool
  items_error :: "string option"

definition items_init :: items_state where
  "items_init =
     \<lparr> learningItems = [], videoItems = [], quizItems = [], flashcardItems = [],
       keyConceptsItems = [], methodologyItems = [], resultsItems = [],
       items_isLoading = True, items_error = None \<rparr>"

text \<open>The six recognised type tags and the bucket each one selects.\<close>

definition recognized :: "string list" where
  "recognized = [''video'', ''quiz'', ''flashcard'', ''concepts'', ''methodology'', ''results'']"

definition bucket :: "string \<Rightarrow> items_state \<Rightarrow> learning_item list" where
  "bucket t s =
     (if t = ''video'' then videoItems s
      else if t = ''quiz'' then quizItems s
      else if t = ''flashcard'' then flashcardItems s
      else if t = ''concepts'' then keyConceptsItems s
      else if t = ''methodology'' then methodologyItems s
      else if t = ''results'' then resultsItems s
      else [])"

text \<open>
  The \<^verbatim>\<open>switch\<close> of the three handlers: the setter of the bucket named by the tag is
  applied with the functional update \<open>f\<close>; an unrecognised tag matches no \<^verbatim>\<open>case\<close>.
\<close>

definition switch_bucket ::
  "string \<Rightarrow> (learning_item list \<Rightarrow> learning_item list) \<Rightarrow> items_state \<Rightarrow> items_state" where
  "switch_bucket t f s =
     (if t = ''video'' then s\<lparr>videoItems := f (videoItems s)\<rparr>
      else if t = ''quiz'' then s\<lparr>quizItems := f (quizItems s)\<rparr>
      else if t = ''flashcard'' then s\<lparr>flashcardItems := f (flashcardItems s)\<rparr>
      else if t = ''concepts'' then s\<lparr>keyConceptsItems := f (keyConceptsItems s)\<rparr>
      else if t = ''methodology'' then s\<lparr>methodologyItems := f (methodologyItems s)\<rparr>
      else if t = ''results'' then s\<lparr>resultsItems := f (resultsItems s)\<rparr>
      else s)"

text \<open>
  The continuation of \<^verbatim>\<open>fetchInitialData\<close> once the response has arrived. The first
  argument is the identifier the request was made for (the \<^verbatim>\<open>paperId\<close> of the closure);
  the continuation does not read it. \<open>Inl\<close> is a transport error, \<open>Inr None\<close> a response
  without data. \<open>clk k\<close> are the clock readings for row \<open>k\<close>.
\<close>

definition items_fetched ::
  "string \<Rightarrow> (nat \<Rightarrow> clock) \<Rightarrow> string + item_row list option \<Rightarrow> items_state \<Rightarrow> items_state" where
  "items_fetched requested clk response s =
     (case response of
        Inl err \<Rightarrow> s\<lparr>items_error := Some err, items_isLoading := False\<rparr>
      | Inr None \<Rightarrow> s\<lparr>items_isLoading := False\<rparr>
      | Inr (Some rows) \<Rightarrow>
          (let transformedItems = map (\<lambda>(k, item). transformItem (clk k) item) (enumerate 0 rows)
           in s\<lparr> learningItems := transformedItems,
                 videoItems := filter (\<lambda>item. item_type item = ''video'') transformedItems,
                 quizItems := filter (\<lambda>item. item_type item = ''quiz'') transformedItems,
                 flashcardItems := filter (\<lambda>item. item_type item = ''flashcard'') transformedItems,
                 keyConceptsItems := filter (\<lambda>item. item_type item = ''concepts'') transformedItems,
                 methodologyItems := filter (\<lambda>item. item_type item = ''methodology'') transformedItems,
                 resultsItems := filter (\<lambda>item. item_type item = ''results'') transformedItems,
                 items_isLoading := False \<rparr>))"

text \<open>The three change notifications of the subscription, with their payload.\<close>

datatype notification = INSERT item_row | UPDATE item_row | DELETE item_row

definition on_insert :: "clock \<Rightarrow> item_row \<Rightarrow> items_state \<Rightarrow> items_state" where
  "on_insert now newItemRaw s =
     (let newItem = transformItem now newItemRaw in
      switch_bucket (item_type newItemRaw) (\<lambda>current. current @ [newItem])
        (s\<lparr>learningItems := learningItems s @ [newItem]\<rparr>))"

definition on_update :: "clock \<Rightarrow> item_row \<Rightarrow> items_state \<Rightarrow> items_state" where
  "on_update now updatedItemRaw s =
     (let updatedItem = transformItem now updatedItemRaw;
          replace = map (\<lambda>item. if item_id item = item_id updatedItem then updatedItem else item)
      in switch_bucket (item_type updatedItem) replace
           (s\<lparr>learningItems := replace (learningItems s)\<rparr>))"

definition on_delete :: "item_row \<Rightarrow> items_state \<Rightarrow> items_state" where
  "on_delete deletedItem s =
     (let remove = filter (\<lambda>item. item_id item \<noteq> item_id deletedItem)
      in switch_bucket (item_type deletedItem) remove
           (s\<lparr>learningItems := remove (learningItems s)\<rparr>))"

fun notify :: "clock \<times> notification \<Rightarrow> items_state \<Rightarrow> items_state" where
  "notify (now, INSERT r) s = on_insert now r s"
| "notify (now, UPDATE r) s = on_update now r s"
| "notify (now, DELETE r) s = on_delete r s"

text \<open>Notifications are applied one at a time, in arrival order.\<close>

definition notify_all :: "(clock \<times> notification) list \<Rightarrow> items_state \<Rightarrow> items_state" where
  "notify_all ns s = fold notify ns s"


text \<open>A clock that shows the same two readings for every row.\<close>

definition const_clock :: "clock \<Rightarrow> nat \<Rightarrow> clock" where
  "const_clock c k = c"

subsection \<open>The partition of the full list by type tag\<close>

text \<open>
  Each of the six buckets is the full list filtered by the bucket's tag, in the order of
  the full list.
\<close>

definition partitioned :: "items_state \<Rightarrow> bool" where
  "partitioned s =
     list_all (\<lambda>t. bucket t s = filter (\<lambda>item. item_type item = t) (learningItems s)) recognized"

text \<open>
  A notification agrees with a state when the items stored under its identifier carry
  its type tag; an INSERT always agrees.
\<close>

fun agrees :: "notification \<Rightarrow> items_state \<Rightarrow> bool" where
  "agrees (INSERT r) s = True"
| "agrees (UPDATE r) s =
     list_all (\<lambda>item. item_id item = item_id r \<longrightarrow> item_type item = item_type r) (learningItems s)"
| "agrees (DELETE r) s =
     list_all (\<lambda>item. item_id item = item_id r \<longrightarrow> item_type item = item_type r) (learningItems s)"

fun tags_agree :: "(clock \<times> notification) list \<Rightarrow> items_state \<Rightarrow> bool" where
  "tags_agree [] s = True"
| "tags_agree (n # ns) s = (agrees (snd n) s \<and> tags_agree ns (notify n s))"

text \<open>Every item of a bucket carries the bucket's tag.\<close>

definition typed_buckets :: "items_state \<Rightarrow> bool" where
  "typed_buckets s = list_all (\<lambda>t. list_all (\<lambda>item. item_type item = t) (bucket t s)) recognized"

text \<open>Example rows: the scenario of paper \<^verbatim>\<open>P1\<close> with a quiz \<^verbatim>\<open>i1\<close> and a video \<^verbatim>\<open>i2\<close>.\<close>

definition row_i1 :: item_row where
  "row_i1 = \<lparr> item_id = ''i1'', paper_id = ''P1'', item_type = ''quiz'',
              data = JObj [(''content'', JStr ''old'')],
              created_at = Some ''2024-01-01'', updated_at = Some ''2024-01-01'',
              videos = JUndefined \<rparr>"

definition row_i2 :: item_row where
  "row_i2 = \<lparr> item_id = ''i2'', paper_id = ''P1'', item_type = ''video'',
              data = JObj [(''metadata'', JObj [(''video'', JObj [(''video_id'', JStr ''abc'')])])],
              created_at = Some ''2024-01-01'', updated_at = Some ''2024-01-01'',
              videos = JUndefined \<rparr>"

definition row_i3 :: item_row where
  "row_i3 = \<lparr> item_id = ''i3'', paper_id = ''P1'', item_type = ''podcast'',
              data = JNull, created_at = None, updated_at = None, videos = JUndefined \<rparr>"

definition clock1 :: clock where
  "clock1 = (''2024-02-01'', ''2024-02-01'')"

definition clock2 :: clock where
  "clock2 = (''2024-03-01'', ''2024-03-01'')"

definition loaded_P1 :: items_state where
  "loaded_P1 = items_fetched ''P1'' (const_clock clock1) (Inr (Some [row_i1, row_i2])) items_init"

section \<open>The paper snapshot: \<^verbatim>\<open>usePaperSubscription\<close>\<close>

text \<open>
  Modelled from the spec: the row type of the \<^verbatim>\<open>papers\<close> table, whose declaration
  (\<^verbatim>\<open>integrations/supabase/types\<close>) is not among the sources. A paper has an identifier
  and the upstream fields its document URL is resolved from; these are the columns the
  hook reads, under the names it reads them by. The remaining columns (title, processing
  status and others) are a list of named values.
\<close>

record paper_row =
  paper_row_id :: string
  pdf_url :: "string option"
  source_type :: "string option"
  arxiv_id :: "string option"
  source_url :: "string option"
  other_columns :: "(string \<times> jsval) list"

text \<open>A nullable string inside a template literal: \<^verbatim>\<open>`${v}`\<close>.\<close>

fun template_str :: "string option \<Rightarrow> string" where
  "template_str None = ''null''"
| "template_str (Some s) = s"

text \<open>The resolution of \<^verbatim>\<open>pdfUrl\<close> in \<^verbatim>\<open>fetchInitialData\<close>.\<close>

definition resolve_pdf_url :: "paper_row \<Rightarrow> string option" where
  "resolve_pdf_url row =
     (let pdfUrl = pdf_url row in
      if \<not> truthy_str pdfUrl then
        (if source_type row = Some ''arxiv'' \<and> truthy_str (arxiv_id row)
         then Some (''https://arxiv.org/pdf/'' @ template_str (arxiv_id row))
         else if source_type row = Some ''pdf'' then source_url row
         else pdfUrl)
      else pdfUrl)"

text \<open>
  The state of one instance of the hook: the \<^verbatim>\<open>paperId\<close> of the latest render, the four
  state variables, and the channel of the effect in force. The callback of the channel
  is created by the effect, whose dependency list is \<^verbatim>\<open>[paperId]\<close>: it runs only when
  \<^verbatim>\<open>paperId\<close> changes, and the callback reads the constant \<^verbatim>\<open>initialPdfUrl\<close> of the
  render in which the effect ran. The channel is recorded as the identifier it filters
  on and that value.
\<close>

record paper_hook =
  paperId :: string
  paper :: "paper_row option"
  isLoading :: bool
  error :: "string option"
  initialPdfUrl :: "string option"
  subscription :: "(string \<times> string option) option"

definition paper_hook_init :: paper_hook where
  "paper_hook_init =
     \<lparr> paperId = [], paper = None, isLoading = True, error = None, initialPdfUrl = None,
       subscription = None \<rparr>"

text \<open>
  The effect, run after the first render and after every render in which \<^verbatim>\<open>paperId\<close>
  has changed: the clean-up of the previous run removes its channel; the body returns
  at once on an empty identifier, and otherwise sets \<^verbatim>\<open>isLoading\<close>, starts the fetch and
  subscribes. The state variables keep their values.
\<close>

definition paper_effect :: "string \<Rightarrow> paper_hook \<Rightarrow> paper_hook" where
  "paper_effect pid h =
     (if pid = [] then h\<lparr>paperId := pid, subscription := None\<rparr>
      else h\<lparr>paperId := pid, isLoading := True, subscription := Some (pid, initialPdfUrl h)\<rparr>)"

text \<open>
  The continuation of \<^verbatim>\<open>fetchInitialData\<close> once the response has arrived; \<open>requested\<close>
  is the identifier the request was made for, which the continuation does not read.
  \<open>Inl\<close> is the error of the query (no such row, or a transport failure).
\<close>

definition paper_fetched :: "string \<Rightarrow> string + paper_row \<Rightarrow> paper_hook \<Rightarrow> paper_hook" where
  "paper_fetched requested response h =
     (case response of
        Inl err \<Rightarrow> h\<lparr>error := Some err, isLoading := False\<rparr>
      | Inr row \<Rightarrow>
          (let pdfUrl = resolve_pdf_url row
           in h\<lparr>initialPdfUrl := pdfUrl, paper := Some (row\<lparr>pdf_url := pdfUrl\<rparr>),
                 isLoading := False\<rparr>))"

text \<open>
  An UPDATE notification with the new row \<^verbatim>\<open>payload.new\<close>. The channel delivers the rows
  that match its filter \<^verbatim>\<open>id=eq.${paperId}\<close>; without a channel nothing is delivered.
\<close>

definition paper_updated :: "paper_row \<Rightarrow> paper_hook \<Rightarrow> paper_hook" where
  "paper_updated updatedData h =
     (case subscription h of
        None \<Rightarrow> h
      | Some (pid, closedUrl) \<Rightarrow>
          if paper_row_id updatedData = pid
          then h\<lparr>paper :=
                  (case paper h of
                     None \<Rightarrow> None
                   | Some currentPaper \<Rightarrow>
                       Some (updatedData\<lparr>pdf_url := str_or closedUrl (pdf_url currentPaper)\<rparr>))\<rparr>
          else h)"

text \<open>
  The first render of an instance runs the effect on the initial state. Afterwards an
  instance sees renders (the effect runs again when the identifier has changed),
  responses to its fetches, and notifications.
\<close>

definition paper_mount :: "string \<Rightarrow> paper_hook" where
  "paper_mount pid = paper_effect pid paper_hook_init"

datatype paper_event =
    Render string
  | Fetched string "string + paper_row"
  | Updated paper_row

fun paper_step :: "paper_event \<Rightarrow> paper_hook \<Rightarrow> paper_hook" where
  "paper_step (Render pid) h = (if pid = paperId h then h else paper_effect pid h)"
| "paper_step (Fetched requested response) h = paper_fetched requested response h"
| "paper_step (Updated row) h = paper_updated row h"

definition paper_run :: "string \<Rightarrow> paper_event list \<Rightarrow> paper_hook" where
  "paper_run pid es = fold paper_step es (paper_mount pid)"

text \<open>Example rows of two papers.\<close>

definition paper_A :: paper_row where
  "paper_A = \<lparr> paper_row_id = ''A'', pdf_url = Some ''https://example.org/a.pdf'',
               source_type = Some ''pdf'', arxiv_id = None, source_url = None,
               other_columns = [(''title'', JStr ''Paper A'')] \<rparr>"

definition paper_B :: paper_row where
  "paper_B = \<lparr> paper_row_id = ''B'', pdf_url = Some ''https://example.org/b.pdf'',
               source_type = Some ''pdf'', arxiv_id = None, source_url = None,
               other_columns = [(''title'', JStr ''Paper B'')] \<rparr>"

definition paper_arxiv :: paper_row where
  "paper_arxiv = \<lparr> paper_row_id = ''P1'', pdf_url = None,
                   source_type = Some ''arxiv'', arxiv_id = Some ''1234'', source_url = None,
                   other_columns = [(''title'', JStr ''Paper P1'')] \<rparr>"

definition paper_pending :: paper_row where
  "paper_pending = \<lparr> paper_row_id = ''B'', pdf_url = None,
                     source_type = None, arxiv_id = None, source_url = None,
                     other_columns = [(''title'', JStr ''Paper B'')] \<rparr>"

section \<open>Video payload extraction: \<^verbatim>\<open>VideoExplanationStep\<close>\<close>

datatype js_error = TypeError

text \<open>Decimal digits of an array index, as a property key.\<close>

fun index_key :: "nat \<Rightarrow> string" where
  "index_key n =
     (if n < 10 then [char_of (48 + n)] else index_key (n div 10) @ [char_of (48 + n mod 10)])"

text \<open>
  The own enumerable properties that \<^verbatim>\<open>{...v}\<close> copies: the fields of an object, the
  indexed elements of an array, the indexed characters of a string, nothing otherwise.
\<close>

fun spread :: "jsval \<Rightarrow> (string \<times> jsval) list" where
  "spread (JObj kvs) = kvs"
| "spread (JArr xs) = map (\<lambda>(k, x). (index_key k, x)) (enumerate 0 xs)"
| "spread (JStr s) = map (\<lambda>(k, c). (index_key k, JStr [c])) (enumerate 0 s)"
| "spread v = []"

text \<open>Writing a property: in place when the key exists, at the end otherwise.\<close>

fun set_prop :: "string \<Rightarrow> jsval \<Rightarrow> (string \<times> jsval) list \<Rightarrow> (string \<times> jsval) list" where
  "set_prop k v [] = [(k, v)]"
| "set_prop k v ((k', v') # kvs) = (if k' = k then (k, v) # kvs else (k', v') # set_prop k v kvs)"

text \<open>\<^verbatim>\<open>{...video, itemId: videoItem.id}\<close>.\<close>

definition tag_video :: "string \<Rightarrow> jsval \<Rightarrow> jsval" where
  "tag_video owner video = JObj (set_prop ''itemId'' (JStr owner) (spread video))"

text \<open>
  \<^verbatim>\<open>videos.forEach(...)\<close> with the tagging callback: on an array, one descriptor per
  element; any other value has no \<^verbatim>\<open>forEach\<close>, and the call throws.
\<close>

fun forEach_tag :: "string \<Rightarrow> jsval \<Rightarrow> js_error + jsval list" where
  "forEach_tag owner (JArr vs) = Inr (map (tag_video owner) vs)"
| "forEach_tag owner v = Inl TypeError"

text \<open>
  The value of \<^verbatim>\<open>videos\<close> after the \<^verbatim>\<open>if\<close> chain of the loop body, for one item. The
  branches are those of the source, in its order.
\<close>

definition locate_videos :: "learning_item \<Rightarrow> jsval" where
  "locate_videos videoItem =
     (if truthy (opt_get (metadata videoItem) ''video'')
        then JArr [opt_get (metadata videoItem) ''video'']
      else if truthy (opt_get (data videoItem) ''video'')
        then JArr [opt_get (data videoItem) ''video'']
      else if isArray (opt_get (metadata videoItem) ''videos'')
        then opt_get (metadata videoItem) ''videos''
      else if truthy (videos videoItem)
        then (if isArray (videos videoItem) then videos videoItem else JArr [videos videoItem])
      else if truthy (opt_get (data videoItem) ''videos'')
        then opt_get (data videoItem) ''videos''
      else if truthy (data videoItem) \<and> truthy (opt_get (data videoItem) ''video_id'')
        then JArr [data videoItem]
      else if truthy (metadata videoItem) \<and> truthy (opt_get (metadata videoItem) ''video_id'')
        then JArr [metadata videoItem]
      else JArr [])"

text \<open>The descriptors one item contributes.\<close>

definition extract_videos :: "learning_item \<Rightarrow> js_error + jsval list" where
  "extract_videos videoItem = forEach_tag (item_id videoItem) (locate_videos videoItem)"

text \<open>
  The loop over \<^verbatim>\<open>videoItems\<close>, pushing onto \<^verbatim>\<open>extractedVideos\<close>; an exception ends it.
\<close>

fun extract_all :: "learning_item list \<Rightarrow> jsval list \<Rightarrow> js_error + jsval list" where
  "extract_all [] extractedVideos = Inr extractedVideos"
| "extract_all (videoItem # rest) extractedVideos =
     (case extract_videos videoItem of
        Inl e \<Rightarrow> Inl e
      | Inr ds \<Rightarrow> extract_all rest (extractedVideos @ ds))"

text \<open>
  The effect on \<^verbatim>\<open>[videoItems]\<close>: nothing happens on an empty list, otherwise
  \<^verbatim>\<open>allVideos\<close> becomes the extracted descriptors.
\<close>

definition video_effect :: "learning_item list \<Rightarrow> jsval list \<Rightarrow> js_error + jsval list" where
  "video_effect items allVideos = (if items = [] then Inr allVideos else extract_all items [])"

text \<open>
  The search as the specification words it, with six shapes: (1) a single video object
  at \<^verbatim>\<open>metadata.video\<close>, (2) a single video object at \<^verbatim>\<open>data.video\<close>, (3) an array of
  video objects under \<^verbatim>\<open>metadata.videos\<close>, (4) video object(s) attached under the
  alternate keys, singular or array: \<^verbatim>\<open>videos\<close> on the item, then \<^verbatim>\<open>videos\<close> on its data,
  (5) a data object containing \<^verbatim>\<open>video_id\<close>, (6) a metadata object containing
  \<^verbatim>\<open>video_id\<close>; the first match wins, no match gives nothing, and nothing raises an
  error.
\<close>

definition spec_video_search :: "learning_item \<Rightarrow> jsval list" where
  "spec_video_search videoItem =
     (if truthy (opt_get (metadata videoItem) ''video'')
        then [opt_get (metadata videoItem) ''video'']
      else if truthy (opt_get (data videoItem) ''video'')
        then [opt_get (data videoItem) ''video'']
      else (case opt_get (metadata videoItem) ''videos'' of
        JArr vs \<Rightarrow> vs
      | _ \<Rightarrow>
      if truthy (videos videoItem)
        then (case videos videoItem of JArr vs \<Rightarrow> vs | v \<Rightarrow> [v])
      else if truthy (opt_get (data videoItem) ''videos'')
        then (case opt_get (data videoItem) ''videos'' of JArr vs \<Rightarrow> vs | v \<Rightarrow> [v])
      else if truthy (data videoItem) \<and> truthy (opt_get (data videoItem) ''video_id'')
        then [data videoItem]
      else if truthy (metadata videoItem) \<and> truthy (opt_get (metadata videoItem) ''video_id'')
        then [metadata videoItem]
      else []))"

text \<open>
  The \<^verbatim>\<open>data.videos\<close> branch of the source is reached: no earlier branch matches, and
  \<^verbatim>\<open>data.videos\<close> is truthy.
\<close>

definition reaches_data_videos :: "learning_item \<Rightarrow> bool" where
  "reaches_data_videos videoItem =
     (\<not> truthy (opt_get (metadata videoItem) ''video'') \<and>
      \<not> truthy (opt_get (data videoItem) ''video'') \<and>
      \<not> isArray (opt_get (metadata videoItem) ''videos'') \<and>
      \<not> truthy (videos videoItem) \<and>
      truthy (opt_get (data videoItem) ''videos''))"

text \<open>Example video items.\<close>

definition video_i9 :: learning_item where
  "video_i9 = transformItem clock1
     \<lparr> item_id = ''i9'', paper_id = ''P1'', item_type = ''video'',
       data = JObj [(''metadata'', JObj [(''video'', JObj [(''video_id'', JStr ''abc'')])]),
                    (''video'', JObj [(''video_id'', JStr ''other'')])],
       created_at = None, updated_at = None, videos = JUndefined \<rparr>"

definition video_in_data :: learning_item where
  "video_in_data = transformItem clock1
     \<lparr> item_id = ''i7'', paper_id = ''P1'', item_type = ''video'',
       data = JObj [(''videos'', JArr [JObj [(''video_id'', JStr ''xyz'')]])],
       created_at = None, updated_at = None, videos = JUndefined \<rparr>"

definition video_solo :: learning_item where
  "video_solo = transformItem clock1
     \<lparr> item_id = ''i6'', paper_id = ''P1'', item_type = ''video'',
       data = JObj [(''videos'', JObj [(''video_id'', JStr ''solo'')])],
       created_at = None, updated_at = None, videos = JUndefined \<rparr>"

definition video_bare :: learning_item where
  "video_bare = transformItem clock1
     \<lparr> item_id = ''i8'', paper_id = ''P1'', item_type = ''video'',
       data = JObj [(''title'', JStr ''No payload'')],
       created_at = None, updated_at = None, videos = JUndefined \<rparr>"

section \<open>Step filtering: \<^verbatim>\<open>LearningJourney\<close>\<close>

text \<open>
  The component with the content types \<^verbatim>\<open>all\<close>, \<^verbatim>\<open>reading\<close>, \<^verbatim>\<open>video\<close>, \<^verbatim>\<open>quiz\<close>,
  \<^verbatim>\<open>flashcard\<close>, \<^verbatim>\<open>slides\<close> and \<^verbatim>\<open>consulting\<close>.
\<close>

text \<open>
  A step is a React node. An element has a type (the tag name of a host element, or a
  component function with its name), and props, of which the code reads \<^verbatim>\<open>title\<close> and
  \<^verbatim>\<open>children\<close>. \<open>Nothing\<close> stands for null, undefined and booleans, \<open>Text\<close> for strings
  and numbers, \<open>Nodes\<close> for an array of nodes.
\<close>

datatype component = Host string | Component string

datatype node =
    Nothing
  | Text string
  | Nodes "node list"
  | Element component "string option" node

fun is_element :: "node \<Rightarrow> bool" where
  "is_element (Element c t children) = True"
| "is_element n = False"

fun node_truthy :: "node \<Rightarrow> bool" where
  "node_truthy Nothing = False"
| "node_truthy (Text s) = (s \<noteq> [])"
| "node_truthy n = True"

text \<open>\<^verbatim>\<open>hay.includes(needle)\<close>.\<close>

fun starts_with :: "string \<Rightarrow> string \<Rightarrow> bool" where
  "starts_with [] hay = True"
| "starts_with (n # ns) [] = False"
| "starts_with (n # ns) (h # hs) = (n = h \<and> starts_with ns hs)"

fun str_includes :: "string \<Rightarrow> string \<Rightarrow> bool" where
  "str_includes needle [] = starts_with needle []"
| "str_includes needle (h # hs) = (starts_with needle (h # hs) \<or> str_includes needle hs)"

text \<open>
  \<^verbatim>\<open>findLearningStepCard\<close>: the title of the first element with a title, looking into
  arrays only.
\<close>

fun findLearningStepCard :: "node \<Rightarrow> string"
  and findLearningStepCard_in :: "node list \<Rightarrow> string" where
  "findLearningStepCard Nothing = []"
| "findLearningStepCard (Text s) = []"
| "findLearningStepCard (Nodes children) = findLearningStepCard_in children"
| "findLearningStepCard (Element c t children) = (if truthy_str t then template_str t else [])"
| "findLearningStepCard_in [] = []"
| "findLearningStepCard_in (child # children) =
     (let result = findLearningStepCard child
      in if result \<noteq> [] then result else findLearningStepCard_in children)"

text \<open>
  \<^verbatim>\<open>stepTitle\<close> after the first part of the \<^verbatim>\<open>try\<close> block: the title of the element, or
  the one found in its children; empty for a step that is no element.
\<close>

fun step_title :: "node \<Rightarrow> string" where
  "step_title (Element c t children) =
     (if truthy_str t then template_str t
      else if node_truthy children then findLearningStepCard children
      else [])"
| "step_title n = []"

text \<open>
  \<^verbatim>\<open>typeof stepElement.type !== 'string' && stepElement.type.name === name\<close>. On a step
  that is no element, \<^verbatim>\<open>stepElement.type\<close> is undefined (or the read itself fails), and
  reading \<^verbatim>\<open>.name\<close> throws.
\<close>

fun type_name_is :: "string \<Rightarrow> node \<Rightarrow> js_error + bool" where
  "type_name_is name (Element (Host tag) t children) = Inr False"
| "type_name_is name (Element (Component f) t children) = Inr (f = name)"
| "type_name_is name n = Inl TypeError"

text \<open>\<^verbatim>\<open>stepTitle.includes(keyword) || (typeof ... && ... === name)\<close>.\<close>

definition matches_kind :: "string \<Rightarrow> string \<Rightarrow> node \<Rightarrow> js_error + bool" where
  "matches_kind keyword name stepElement =
     (if str_includes keyword (step_title stepElement) then Inr True
      else type_name_is name stepElement)"

text \<open>The \<^verbatim>\<open>if\<close> chain that sets \<^verbatim>\<open>stepType\<close> and \<^verbatim>\<open>order\<close> for the reading filter.\<close>

definition classify :: "node \<Rightarrow> js_error + (string \<times> nat) option" where
  "classify stepElement =
     (case matches_kind ''Paper Summary'' ''SummaryStep'' stepElement of
        Inl e \<Rightarrow> Inl e
      | Inr True \<Rightarrow> Inr (Some (''summary'', 1))
      | Inr False \<Rightarrow>
     (case matches_kind ''Key Concepts'' ''KeyConceptsStep'' stepElement of
        Inl e \<Rightarrow> Inl e
      | Inr True \<Rightarrow> Inr (Some (''concepts'', 2))
      | Inr False \<Rightarrow>
     (case matches_kind ''Methodology'' ''MethodologyStep'' stepElement of
        Inl e \<Rightarrow> Inl e
      | Inr True \<Rightarrow> Inr (Some (''methodology'', 3))
      | Inr False \<Rightarrow>
     (case matches_kind ''Results'' ''ResultsStep'' stepElement of
        Inl e \<Rightarrow> Inl e
      | Inr True \<Rightarrow> Inr (Some (''results'', 4))
      | Inr False \<Rightarrow> Inr None))))"

record reading_entry =
  entry_step :: node
  entry_index :: nat
  entry_type :: string
  entry_order :: nat

text \<open>
  The first loop of the reading filter: the classified steps are pushed onto
  \<^verbatim>\<open>readingSteps\<close>; an exception is caught and the step is left out.
\<close>

fun collect_reading :: "nat \<Rightarrow> node list \<Rightarrow> reading_entry list" where
  "collect_reading index [] = []"
| "collect_reading index (step # steps) =
     (case classify step of
        Inr (Some (ty, ord)) \<Rightarrow>
          \<lparr> entry_step = step, entry_index = index, entry_type = ty, entry_order = ord \<rparr>
            # collect_reading (Suc index) steps
      | _ \<Rightarrow> collect_reading (Suc index) steps)"

datatype content_type = All | Reading | Video | Quiz | Flashcard | Slides | Consulting

text \<open>
  The condition of the loop for the other filters: only the disjunct of the active
  filter is evaluated beyond its first conjunct.
\<close>

fun selected :: "content_type \<Rightarrow> node \<Rightarrow> js_error + bool" where
  "selected Video stepElement = matches_kind ''Video Explanation'' ''VideoExplanationStep'' stepElement"
| "selected Quiz stepElement = matches_kind ''Comprehension Quiz'' ''QuizStep'' stepElement"
| "selected Flashcard stepElement = matches_kind ''Flashcards'' ''FlashcardsStep'' stepElement"
| "selected Consulting stepElement = matches_kind ''Expert Consulting'' ''ConsultingStep'' stepElement"
| "selected activeFilter stepElement = Inr False"

text \<open>The loop for the other filters; the condition is outside the \<^verbatim>\<open>try\<close> block.\<close>

fun collect_matching :: "content_type \<Rightarrow> nat \<Rightarrow> node list \<Rightarrow> js_error + (node \<times> nat) list" where
  "collect_matching activeFilter index [] = Inr []"
| "collect_matching activeFilter index (step # steps) =
     (case selected activeFilter step of
        Inl e \<Rightarrow> Inl e
      | Inr b \<Rightarrow>
          (case collect_matching activeFilter (Suc index) steps of
             Inl e \<Rightarrow> Inl e
           | Inr rest \<Rightarrow> Inr (if b then (step, index) # rest else rest)))"

text \<open>
  The effect on \<^verbatim>\<open>[activeFilter, steps]\<close>. The result pairs each step of
  \<^verbatim>\<open>filteredSteps\<close> with its entry in \<^verbatim>\<open>stepMap\<close>, the position in \<^verbatim>\<open>steps\<close>. The
  comparator \<^verbatim>\<open>a.order - b.order\<close> sorts by \<^verbatim>\<open>order\<close>; \<^verbatim>\<open>Array.prototype.sort\<close> is stable.
\<close>

definition filter_steps :: "content_type \<Rightarrow> node list \<Rightarrow> js_error + (node \<times> nat) list" where
  "filter_steps activeFilter steps =
     (if activeFilter = All then Inr (zip steps [0..<length steps])
      else if activeFilter = Reading
      then Inr (map (\<lambda>item. (entry_step item, entry_index item))
                 (sort_key entry_order (collect_reading 0 steps)))
      else collect_matching activeFilter 0 steps)"

text \<open>The steps of the scenario, as the page builds them: elements of function components.\<close>

definition Summary :: node where
  "Summary = Element (Component ''SummaryStep'') None Nothing"

definition VideoStep :: node where
  "VideoStep = Element (Component ''VideoExplanationStep'') None Nothing"

definition Results :: node where
  "Results = Element (Component ''ResultsStep'') None Nothing"

definition Concepts :: node where
  "Concepts = Element (Host ''div'') None
     (Nodes [Text ''intro'', Element (Component ''LearningStepCard'') (Some ''Key Concepts'') Nothing])"

text \<open>
  The kind and order the chain gives a step under the reading filter; a step on which
  the chain throws has none.
\<close>

definition reading_kind :: "node \<Rightarrow> (string \<times> nat) option" where
  "reading_kind step = (case classify step of Inl e \<Rightarrow> None | Inr r \<Rightarrow> r)"

section \<open>Properties of the learning-item synchronisation\<close>

lemma item_type_transformItem: "item_type (transformItem now r) = item_type r"
  by (simp add: transformItem_def baseItem_def Let_def)

lemma item_id_transformItem: "item_id (transformItem now r) = item_id r"
  by (simp add: transformItem_def baseItem_def Let_def)

lemma bucket_switch:
  "t \<in> set recognized \<Longrightarrow>
   bucket t (switch_bucket t' f s) = (if t = t' then f (bucket t s) else bucket t s)"
  by (auto simp: recognized_def bucket_def switch_bucket_def)

lemma switch_unrecognized: "t \<notin> set recognized \<Longrightarrow> switch_bucket t f s = s"
  by (simp add: recognized_def switch_bucket_def)

lemma learningItems_switch [simp]: "learningItems (switch_bucket t' f s) = learningItems s"
  by (simp add: switch_bucket_def)

lemma items_error_switch [simp]: "items_error (switch_bucket t' f s) = items_error s"
  by (simp add: switch_bucket_def)

lemma bucket_learningItems_update [simp]: "bucket t (s\<lparr>learningItems := xs\<rparr>) = bucket t s"
  by (simp add: bucket_def)

lemma partitioned_alt:
  "partitioned s \<longleftrightarrow>
     (\<forall>t\<in>set recognized. bucket t s = filter (\<lambda>item. item_type item = t) (learningItems s))"
  by (simp add: partitioned_def list_all_iff)

lemma partitioned_fetched: "partitioned (items_fetched req clk (Inr (Some rows)) s)"
  by (simp add: partitioned_def recognized_def bucket_def items_fetched_def Let_def)

lemma filter_replace:
  assumes "\<forall>i\<in>set xs. item_id i = a \<longrightarrow> item_type i = item_type u"
  shows "filter (\<lambda>i. item_type i = t) (map (\<lambda>i. if item_id i = a then u else i) xs) =
         (if item_type u = t
          then map (\<lambda>i. if item_id i = a then u else i) (filter (\<lambda>i. item_type i = t) xs)
          else filter (\<lambda>i. item_type i = t) xs)"
  using assms by (induction xs) auto

lemma filter_remove:
  assumes "\<forall>i\<in>set xs. item_id i = a \<longrightarrow> item_type i = t0"
  shows "filter (\<lambda>i. item_type i = t) (filter (\<lambda>i. item_id i \<noteq> a) xs) =
         (if t0 = t then filter (\<lambda>i. item_id i \<noteq> a) (filter (\<lambda>i. item_type i = t) xs)
          else filter (\<lambda>i. item_type i = t) xs)"
  using assms by (induction xs) auto

lemma partitioned_insert: "partitioned s \<Longrightarrow> partitioned (on_insert now r s)"
  by (simp add: partitioned_alt on_insert_def Let_def bucket_switch item_type_transformItem)

lemma partitioned_update:
  assumes "partitioned s" "agrees (UPDATE r) s"
  shows "partitioned (on_update now r s)"
proof -
  have a: "\<forall>i\<in>set (learningItems s).
             item_id i = item_id r \<longrightarrow> item_type i = item_type (transformItem now r)"
    using assms(2) by (simp add: list_all_iff item_type_transformItem)
  show ?thesis using assms(1)
    by (simp add: partitioned_alt on_update_def Let_def item_id_transformItem bucket_switch
        filter_replace[OF a])
qed

lemma partitioned_delete:
  assumes "partitioned s" "agrees (DELETE r) s"
  shows "partitioned (on_delete r s)"
proof -
  have a: "\<forall>i\<in>set (learningItems s). item_id i = item_id r \<longrightarrow> item_type i = item_type r"
    using assms(2) by (simp add: list_all_iff)
  show ?thesis using assms(1)
    by (simp add: partitioned_alt on_delete_def Let_def bucket_switch filter_remove[OF a]
        del: filter_filter)
qed

lemma partitioned_notify: "partitioned s \<Longrightarrow> agrees (snd n) s \<Longrightarrow> partitioned (notify n s)"
  by (cases n; cases "snd n") (auto intro: partitioned_insert partitioned_update partitioned_delete)

lemma partitioned_notify_all:
  "partitioned s \<Longrightarrow> tags_agree ns s \<Longrightarrow> partitioned (notify_all ns s)"
  unfolding notify_all_def
  by (induction ns arbitrary: s) (auto intro: partitioned_notify)

text \<open>
  C1, as amended. After an initial load, for every sequence of change notifications in
  which each UPDATE and each DELETE carries the type tag of the items stored under its
  identifier, each of the six buckets is exactly the full list filtered by the bucket's
  tag: a bucket holds an item if and only if the item is in the full list and carries the
  bucket's tag.
\<close>

theorem buckets_partition_full_list:
  assumes "tags_agree ns (items_fetched req clk (Inr (Some rows)) s0)"
  shows "partitioned (notify_all ns (items_fetched req clk (Inr (Some rows)) s0)) \<and>
         (\<forall>t\<in>set recognized. \<forall>item.
            item \<in> set (bucket t (notify_all ns (items_fetched req clk (Inr (Some rows)) s0))) \<longleftrightarrow>
            item \<in> set (learningItems (notify_all ns (items_fetched req clk (Inr (Some rows)) s0)))
              \<and> item_type item = t)"
proof -
  let ?s = "notify_all ns (items_fetched req clk (Inr (Some rows)) s0)"
  have p: "partitioned ?s"
    using partitioned_fetched assms by (rule partitioned_notify_all)
  moreover have "item \<in> set (bucket t ?s) \<longleftrightarrow> item \<in> set (learningItems ?s) \<and> item_type item = t"
    if "t \<in> set recognized" for t item
    using p that by (auto simp: partitioned_alt)
  ultimately show ?thesis by blast
qed

lemmas item_defs =
  loaded_P1_def items_fetched_def items_init_def const_clock_def row_i1_def row_i2_def row_i3_def
  clock1_def clock2_def transformItem_def baseItem_def js_or_def str_or_def notify_all_def
  on_insert_def on_update_def on_delete_def switch_bucket_def bucket_def recognized_def
  partitioned_def typed_buckets_def Let_def

theorem buckets_partition_full_list_witness:
  "tags_agree [(clock2, INSERT row_i3), (clock2, UPDATE (row_i1\<lparr>data := JNull\<rparr>)),
               (clock2, DELETE row_i2)]
     (items_fetched ''P1'' (const_clock clock1) (Inr (Some [row_i1, row_i2])) items_init) \<and>
   learningItems (notify_all [(clock2, INSERT row_i3), (clock2, UPDATE (row_i1\<lparr>data := JNull\<rparr>)),
                              (clock2, DELETE row_i2)]
     (items_fetched ''P1'' (const_clock clock1) (Inr (Some [row_i1, row_i2])) items_init)) =
     [transformItem clock2 (row_i1\<lparr>data := JNull\<rparr>), transformItem clock2 row_i3] \<and>
   partitioned (notify_all [(clock2, INSERT row_i3), (clock2, UPDATE (row_i1\<lparr>data := JNull\<rparr>)),
                            (clock2, DELETE row_i2)]
     (items_fetched ''P1'' (const_clock clock1) (Inr (Some [row_i1, row_i2])) items_init))"
proof -
  have h: "tags_agree [(clock2, INSERT row_i3), (clock2, UPDATE (row_i1\<lparr>data := JNull\<rparr>)),
               (clock2, DELETE row_i2)]
     (items_fetched ''P1'' (const_clock clock1) (Inr (Some [row_i1, row_i2])) items_init)"
    by (simp add: item_defs)
  have l: "learningItems (notify_all [(clock2, INSERT row_i3), (clock2, UPDATE (row_i1\<lparr>data := JNull\<rparr>)),
                              (clock2, DELETE row_i2)]
     (items_fetched ''P1'' (const_clock clock1) (Inr (Some [row_i1, row_i2])) items_init)) =
     [transformItem clock2 (row_i1\<lparr>data := JNull\<rparr>), transformItem clock2 row_i3]"
    by (simp add: item_defs)
  from buckets_partition_full_list [OF h] h l show ?thesis by blast
qed

text \<open>
  As the specification states it, the property fails: an UPDATE that changes the type
  tag of a stored quiz to \<^verbatim>\<open>video\<close> rewrites the full list and looks for the item in
  the video bucket only; the old record stays in the quiz bucket and the new one is in
  no bucket.
\<close>

theorem buckets_partition_counterexample:
  "\<not> partitioned (notify_all [(clock2, UPDATE (row_i1\<lparr>item_type := ''video''\<rparr>))]
      (items_fetched ''P1'' (const_clock clock1) (Inr (Some [row_i1, row_i2])) items_init))"
  by (simp add: item_defs)

subsection \<open>Items with an unrecognised type tag\<close>

lemma typed_alt:
  "typed_buckets s \<longleftrightarrow> (\<forall>t\<in>set recognized. \<forall>item\<in>set (bucket t s). item_type item = t)"
  by (simp add: typed_buckets_def list_all_iff)

lemma typed_fetched: "typed_buckets (items_fetched req clk (Inr (Some rows)) s)"
  by (simp add: typed_buckets_def recognized_def bucket_def items_fetched_def Let_def list_all_iff)

lemma typed_notify: "typed_buckets s \<Longrightarrow> typed_buckets (notify n s)"
proof (cases n)
  case (Pair now m)
  assume t: "typed_buckets s"
  show ?thesis
  proof (cases m)
    case (INSERT r)
    with Pair t show ?thesis
      by (auto simp: typed_alt on_insert_def Let_def bucket_switch item_type_transformItem)
  next
    case (UPDATE r)
    with Pair t show ?thesis
      by (auto simp: typed_alt on_update_def Let_def bucket_switch item_type_transformItem)
  next
    case (DELETE r)
    with Pair t show ?thesis
      by (auto simp: typed_alt on_delete_def Let_def bucket_switch)
  qed
qed

lemma typed_notify_all: "typed_buckets s \<Longrightarrow> typed_buckets (notify_all ns s)"
  unfolding notify_all_def
  by (induction ns arbitrary: s) (auto intro: typed_notify)

lemma transformed_rows:
  "map (\<lambda>(k, item). transformItem (clk k) item) (enumerate n rows) =
   map (\<lambda>k. transformItem (clk (n + k)) (rows ! k)) [0..<length rows]"
  by (rule nth_equalityI) (simp_all add: nth_enumerate_eq)

lemma learningItems_fetched:
  "learningItems (items_fetched req clk (Inr (Some rows)) s) =
   map (\<lambda>k. transformItem (clk k) (rows ! k)) [0..<length rows]"
  using transformed_rows [of clk 0 rows] by (simp add: items_fetched_def Let_def)

lemma untyped_not_in_bucket:
  "typed_buckets s \<Longrightarrow> item_type item \<notin> set recognized \<Longrightarrow> t \<in> set recognized \<Longrightarrow>
   item \<notin> set (bucket t s)"
  by (auto simp: typed_alt)

lemma count_by_key:
  "map f xs = map g ys \<Longrightarrow>
   length (filter (\<lambda>x. f x = i) xs) = length (filter (\<lambda>y. g y = i) ys)"
proof -
  assume e: "map f xs = map g ys"
  have "length (filter (\<lambda>x. f x = i) xs) = length (filter (\<lambda>v. v = i) (map f xs))"
    by (simp add: filter_map comp_def)
  also have "\<dots> = length (filter (\<lambda>v. v = i) (map g ys))"
    by (simp only: e)
  also have "\<dots> = length (filter (\<lambda>y. g y = i) ys)"
    by (simp add: filter_map comp_def)
  finally show ?thesis .
qed

lemma item_ids_fetched:
  "map item_id (learningItems (items_fetched req clk (Inr (Some rows)) s)) = map item_id rows"
  unfolding learningItems_fetched
  by (rule nth_equalityI) (simp_all add: item_id_transformItem)

text \<open>
  C2, as amended. Let the type tag of a row be none of the six recognised tags. The
  initial load makes one entry of the full list from each row of the response, in
  order: row \<open>k\<close> becomes entry \<open>k\<close>, and the full list holds as many entries under an
  identifier as the response holds rows under it. An INSERT of the row, in any state
  reached from an initial load by change notifications, appends one entry, the
  transformed row, to the full list, whether or not the identifier is stored already;
  the full list then holds exactly one entry under the identifier if it held none
  before. In both cases no bucket holds the transformed row, the INSERT leaves every
  bucket as it was, and no error is recorded.
\<close>

theorem unrecognized_type_kept_unbucketed:
  assumes "item_type raw \<notin> set recognized"
  shows "(k < length rows \<and> rows ! k = raw \<longrightarrow>
            length (learningItems (items_fetched req clk (Inr (Some rows)) s0)) = length rows \<and>
            learningItems (items_fetched req clk (Inr (Some rows)) s0) ! k = transformItem (clk k) raw \<and>
            length (filter (\<lambda>item. item_id item = item_id raw)
                      (learningItems (items_fetched req clk (Inr (Some rows)) s0)))
              = length (filter (\<lambda>row. item_id row = item_id raw) rows) \<and>
            (\<forall>t\<in>set recognized.
               transformItem (clk k) raw \<notin> set (bucket t (items_fetched req clk (Inr (Some rows)) s0))) \<and>
            items_error (items_fetched req clk (Inr (Some rows)) s0) = items_error s0) \<and>
         learningItems (on_insert now raw (notify_all ns (items_fetched req clk (Inr (Some rows)) s0)))
           = learningItems (notify_all ns (items_fetched req clk (Inr (Some rows)) s0))
               @ [transformItem now raw] \<and>
         (item_id raw \<notin> item_id `
             set (learningItems (notify_all ns (items_fetched req clk (Inr (Some rows)) s0))) \<longrightarrow>
            filter (\<lambda>item. item_id item = item_id raw)
              (learningItems (on_insert now raw
                 (notify_all ns (items_fetched req clk (Inr (Some rows)) s0))))
              = [transformItem now raw]) \<and>
         (\<forall>t\<in>set recognized.
            bucket t (on_insert now raw (notify_all ns (items_fetched req clk (Inr (Some rows)) s0)))
              = bucket t (notify_all ns (items_fetched req clk (Inr (Some rows)) s0)) \<and>
            transformItem now raw \<notin> set (bucket t (on_insert now raw
              (notify_all ns (items_fetched req clk (Inr (Some rows)) s0))))) \<and>
         items_error (on_insert now raw (notify_all ns (items_fetched req clk (Inr (Some rows)) s0)))
           = items_error (notify_all ns (items_fetched req clk (Inr (Some rows)) s0))"
proof -
  let ?L = "items_fetched req clk (Inr (Some rows)) s0"
  let ?S = "notify_all ns ?L"
  have load: "length (learningItems ?L) = length rows \<and>
        learningItems ?L ! k = transformItem (clk k) raw \<and>
        length (filter (\<lambda>item. item_id item = item_id raw) (learningItems ?L))
          = length (filter (\<lambda>row. item_id row = item_id raw) rows) \<and>
        (\<forall>t\<in>set recognized. transformItem (clk k) raw \<notin> set (bucket t ?L)) \<and>
        items_error ?L = items_error s0"
    if h: "k < length rows \<and> rows ! k = raw"
  proof (intro conjI)
    show "length (learningItems ?L) = length rows"
      by (simp add: learningItems_fetched)
    show "learningItems ?L ! k = transformItem (clk k) raw"
      using h by (simp add: learningItems_fetched)
    show "length (filter (\<lambda>item. item_id item = item_id raw) (learningItems ?L))
          = length (filter (\<lambda>row. item_id row = item_id raw) rows)"
      by (rule count_by_key) (rule item_ids_fetched)
    show "\<forall>t\<in>set recognized. transformItem (clk k) raw \<notin> set (bucket t ?L)"
      using untyped_not_in_bucket [OF typed_fetched, of "transformItem (clk k) raw"] assms
      by (auto simp: item_type_transformItem)
    show "items_error ?L = items_error s0"
      by (simp add: items_fetched_def Let_def)
  qed
  have sw: "on_insert now raw ?S = ?S\<lparr>learningItems := learningItems ?S @ [transformItem now raw]\<rparr>"
    using assms by (simp add: on_insert_def Let_def switch_unrecognized)
  have app: "learningItems (on_insert now raw ?S) = learningItems ?S @ [transformItem now raw]"
    by (simp add: sw)
  have once: "filter (\<lambda>item. item_id item = item_id raw) (learningItems (on_insert now raw ?S))
                = [transformItem now raw]"
    if f: "item_id raw \<notin> item_id ` set (learningItems ?S)"
  proof -
    have "\<forall>item\<in>set (learningItems ?S). item_id item \<noteq> item_id raw"
      using f by (metis image_eqI)
    then have "filter (\<lambda>item. item_id item = item_id raw) (learningItems ?S) = []"
      by (simp add: filter_empty_conv)
    then show ?thesis by (simp add: app item_id_transformItem)
  qed
  have t: "typed_buckets ?S"
    using typed_fetched typed_notify_all by simp
  have bk: "\<forall>t\<in>set recognized. bucket t (on_insert now raw ?S) = bucket t ?S \<and>
          transformItem now raw \<notin> set (bucket t (on_insert now raw ?S))"
    using untyped_not_in_bucket [OF t, of "transformItem now raw"] assms
    by (auto simp: sw item_type_transformItem)
  have er: "items_error (on_insert now raw ?S) = items_error ?S"
    by (simp add: sw)
  from load app once bk er show ?thesis by blast
qed

theorem unrecognized_type_kept_unbucketed_witness:
  "item_type row_i3 \<notin> set recognized \<and>
   learningItems (items_fetched ''P1'' (const_clock clock1)
       (Inr (Some [row_i1, row_i2, row_i3])) items_init) ! 2 = transformItem clock1 row_i3 \<and>
   list_all (\<lambda>t. transformItem clock1 row_i3 \<notin> set (bucket t
       (items_fetched ''P1'' (const_clock clock1)
          (Inr (Some [row_i1, row_i2, row_i3])) items_init))) recognized \<and>
   filter (\<lambda>item. item_id item = item_id row_i3)
     (learningItems (on_insert clock2 row_i3
        (notify_all [(clock2, DELETE row_i3)]
           (items_fetched ''P1'' (const_clock clock1)
              (Inr (Some [row_i1, row_i2, row_i3])) items_init)))) = [transformItem clock2 row_i3] \<and>
   list_all (\<lambda>t. transformItem clock2 row_i3 \<notin> set (bucket t (on_insert clock2 row_i3
        (notify_all [(clock2, DELETE row_i3)]
           (items_fetched ''P1'' (const_clock clock1)
              (Inr (Some [row_i1, row_i2, row_i3])) items_init))))) recognized"
proof -
  have a: "item_type row_i3 \<notin> set recognized"
    by (simp add: row_i3_def recognized_def)
  have b: "2 < length [row_i1, row_i2, row_i3] \<and> [row_i1, row_i2, row_i3] ! 2 = row_i3"
    by simp
  have c: "item_id row_i3 \<notin> item_id ` set (learningItems
             (notify_all [(clock2, DELETE row_i3)]
                (items_fetched ''P1'' (const_clock clock1)
                   (Inr (Some [row_i1, row_i2, row_i3])) items_init)))"
    by (simp add: item_defs)
  have e: "const_clock clock1 2 = clock1"
    by (simp add: const_clock_def)
  from unrecognized_type_kept_unbucketed [OF a, where k = 2 and rows = "[row_i1, row_i2, row_i3]"
      and ns = "[(clock2, DELETE row_i3)]" and req = "''P1''" and clk = "const_clock clock1"
      and ?s0.0 = items_init and now = clock2]
    a b c
  show ?thesis unfolding list_all_iff e by blast
qed

text \<open>
  As the specification states it, the property fails: the INSERT handler appends
  without looking for the identifier, so an INSERT of a row that the initial load has
  already put in the full list leaves the item there twice.
\<close>

theorem unrecognized_type_counterexample:
  "item_type row_i3 \<notin> set recognized \<and>
   count_list (learningItems (on_insert clock1 row_i3
      (items_fetched ''P1'' (const_clock clock1)
         (Inr (Some [row_i1, row_i2, row_i3])) items_init)))
     (transformItem clock1 row_i3) = 2"
  by (simp add: item_defs)

subsection \<open>The UPDATE scenario\<close>

text \<open>
  C3. In a state whose full list is \<open>[i1, i2]\<close> with \<open>i1\<close> a quiz and \<open>i2\<close> a video under
  another identifier, \<open>quizItems = [i1]\<close> and \<open>videoItems = [i2]\<close>, an UPDATE notification
  for the quiz \<open>i1\<close> puts the transformed record in the place of \<open>i1\<close> in the full list
  and in \<open>quizItems\<close>, and leaves \<open>i2\<close> where it was in the full list and in
  \<open>videoItems\<close>.
\<close>

theorem update_replaces_quiz_only:
  assumes "learningItems s = [i1, i2]" and "quizItems s = [i1]" and "videoItems s = [i2]"
    and "item_id i2 \<noteq> item_id i1"
    and "item_id raw = item_id i1" and "item_type raw = ''quiz''"
  shows "learningItems (on_update now raw s) = [transformItem now raw, i2] \<and>
         quizItems (on_update now raw s) = [transformItem now raw] \<and>
         videoItems (on_update now raw s) = [i2]"
  using assms
  by (simp add: on_update_def switch_bucket_def Let_def item_id_transformItem
      item_type_transformItem)

theorem update_replaces_quiz_only_witness:
  "learningItems loaded_P1 = [transformItem clock1 row_i1, transformItem clock1 row_i2] \<and>
   quizItems loaded_P1 = [transformItem clock1 row_i1] \<and>
   videoItems loaded_P1 = [transformItem clock1 row_i2] \<and>
   learningItems (on_update clock2 (row_i1\<lparr>data := JObj [(''content'', JStr ''new'')]\<rparr>) loaded_P1)
     = [transformItem clock2 (row_i1\<lparr>data := JObj [(''content'', JStr ''new'')]\<rparr>),
        transformItem clock1 row_i2] \<and>
   quizItems (on_update clock2 (row_i1\<lparr>data := JObj [(''content'', JStr ''new'')]\<rparr>) loaded_P1)
     = [transformItem clock2 (row_i1\<lparr>data := JObj [(''content'', JStr ''new'')]\<rparr>)] \<and>
   videoItems (on_update clock2 (row_i1\<lparr>data := JObj [(''content'', JStr ''new'')]\<rparr>) loaded_P1)
     = [transformItem clock1 row_i2] \<and>
   content (transformItem clock2 (row_i1\<lparr>data := JObj [(''content'', JStr ''new'')]\<rparr>)) = JStr ''new''"
proof -
  have l: "learningItems loaded_P1 = [transformItem clock1 row_i1, transformItem clock1 row_i2]"
    and q: "quizItems loaded_P1 = [transformItem clock1 row_i1]"
    and v: "videoItems loaded_P1 = [transformItem clock1 row_i2]"
    by (simp_all add: loaded_P1_def items_fetched_def const_clock_def item_type_transformItem
        row_i1_def row_i2_def)
  have i: "item_id (transformItem clock1 row_i2) \<noteq> item_id (transformItem clock1 row_i1)"
    by (simp add: item_id_transformItem row_i1_def row_i2_def)
  have r: "item_id (row_i1\<lparr>data := JObj [(''content'', JStr ''new'')]\<rparr>)
             = item_id (transformItem clock1 row_i1)"
    by (simp add: item_id_transformItem)
  have t: "item_type (row_i1\<lparr>data := JObj [(''content'', JStr ''new'')]\<rparr>) = ''quiz''"
    by (simp add: row_i1_def)
  have c: "content (transformItem clock2 (row_i1\<lparr>data := JObj [(''content'', JStr ''new'')]\<rparr>))
             = JStr ''new''"
    by (simp add: transformItem_def baseItem_def row_i1_def js_or_def)
  from update_replaces_quiz_only [OF l q v i r t, of clock2] l q v c show ?thesis by simp
qed

subsection \<open>Applying an UPDATE twice\<close>

lemma replace_twice:
  "item_id u1 = a \<Longrightarrow>
   map (\<lambda>item. if item_id item = a then u2 else item)
     (map (\<lambda>item. if item_id item = a then u1 else item) xs) =
   map (\<lambda>item. if item_id item = a then u2 else item) xs"
  by (induction xs) auto

lemma transformItem_clock:
  "truthy_str (created_at r) \<Longrightarrow> truthy_str (updated_at r) \<Longrightarrow>
   transformItem c1 r = transformItem c2 r"
  by (simp add: transformItem_def baseItem_def str_or_def Let_def)

lemma second_update_overrides: "on_update c2 r (on_update c1 r s) = on_update c2 r s"
  by (simp add: on_update_def switch_bucket_def Let_def item_id_transformItem
      item_type_transformItem replace_twice del: map_map)

text \<open>
  C4, as amended. Applying the same UPDATE payload twice gives the full list and the six
  buckets of one application made with the clock readings of the second one. When the
  payload carries a non-empty \<^verbatim>\<open>created_at\<close> and a non-empty \<^verbatim>\<open>updated_at\<close>, or both
  applications read the same clock values, this is the state after the first
  application.
\<close>

theorem update_twice:
  "on_update c2 r (on_update c1 r s) = on_update c2 r s \<and>
   ((truthy_str (created_at r) \<and> truthy_str (updated_at r)) \<or> c1 = c2 \<longrightarrow>
      on_update c2 r (on_update c1 r s) = on_update c1 r s)"
proof -
  have "on_update c2 r s = on_update c1 r s"
    if "(truthy_str (created_at r) \<and> truthy_str (updated_at r)) \<or> c1 = c2"
    using that transformItem_clock [of r c1 c2] by (auto simp: on_update_def)
  then show ?thesis by (simp add: second_update_overrides)
qed

theorem update_twice_witness:
  "truthy_str (created_at row_i1) \<and> truthy_str (updated_at row_i1) \<and>
   on_update clock2 row_i1 (on_update clock1 row_i1 loaded_P1) = on_update clock1 row_i1 loaded_P1"
proof -
  have h: "truthy_str (created_at row_i1) \<and> truthy_str (updated_at row_i1)"
    by (simp add: row_i1_def)
  with update_twice [of clock2 row_i1 clock1 loaded_P1] show ?thesis by blast
qed

text \<open>
  As the specification states it, the property fails when the payload has no
  timestamps: the defaults are read from the clock at each application, so the second
  application stores other timestamps than the first.
\<close>

theorem update_twice_counterexample:
  "on_update clock2 (row_i1\<lparr>created_at := None\<rparr>)
     (on_update clock1 (row_i1\<lparr>created_at := None\<rparr>) loaded_P1)
   \<noteq> on_update clock1 (row_i1\<lparr>created_at := None\<rparr>) loaded_P1"
  by (simp add: item_defs)

section \<open>Properties of the paper snapshot\<close>

lemmas paper_defs =
  paper_run_def paper_mount_def paper_effect_def paper_hook_init_def paper_fetched_def
  paper_updated_def resolve_pdf_url_def paper_A_def paper_B_def paper_arxiv_def
  paper_pending_def

text \<open>
  C5, as amended. The document URL stored by the initial fetch, in the snapshot and in
  \<^verbatim>\<open>initialPdfUrl\<close>, is: the stored \<^verbatim>\<open>pdf_url\<close> when that is a non-empty string;
  otherwise, for source type \<^verbatim>\<open>arxiv\<close> with a non-empty \<^verbatim>\<open>arxiv_id\<close>, the address
  \<^verbatim>\<open>https://arxiv.org/pdf/\<close> followed by the identifier; otherwise, for source type
  \<^verbatim>\<open>pdf\<close>, the stored \<^verbatim>\<open>source_url\<close>; otherwise the stored \<^verbatim>\<open>pdf_url\<close> as it is, which is
  null or the empty string.
\<close>

theorem document_url_resolution:
  "map_option pdf_url (paper (paper_fetched req (Inr row) h))
     = Some (initialPdfUrl (paper_fetched req (Inr row) h)) \<and>
   (truthy_str (pdf_url row) \<longrightarrow>
      initialPdfUrl (paper_fetched req (Inr row) h) = pdf_url row) \<and>
   (\<not> truthy_str (pdf_url row) \<and> source_type row = Some ''arxiv'' \<and> arxiv_id row = Some a \<and> a \<noteq> [] \<longrightarrow>
      initialPdfUrl (paper_fetched req (Inr row) h) = Some (''https://arxiv.org/pdf/'' @ a)) \<and>
   (\<not> truthy_str (pdf_url row) \<and> \<not> (source_type row = Some ''arxiv'' \<and> truthy_str (arxiv_id row)) \<and>
    source_type row = Some ''pdf'' \<longrightarrow>
      initialPdfUrl (paper_fetched req (Inr row) h) = source_url row) \<and>
   (\<not> truthy_str (pdf_url row) \<and> \<not> (source_type row = Some ''arxiv'' \<and> truthy_str (arxiv_id row)) \<and>
    source_type row \<noteq> Some ''pdf'' \<longrightarrow>
      initialPdfUrl (paper_fetched req (Inr row) h) = pdf_url row \<and>
      (pdf_url row = None \<or> pdf_url row = Some []))"
proof -
  have e: "pdf_url row = None \<or> pdf_url row = Some []" if "\<not> truthy_str (pdf_url row)"
    using that by (cases "pdf_url row") auto
  show ?thesis
    using e by (auto simp: paper_fetched_def resolve_pdf_url_def Let_def)
qed

theorem document_url_resolution_witness:
  "truthy_str (pdf_url paper_A) \<and>
   initialPdfUrl (paper_fetched ''A'' (Inr paper_A) (paper_mount ''A''))
     = Some ''https://example.org/a.pdf'' \<and>
   pdf_url paper_arxiv = None \<and> source_type paper_arxiv = Some ''arxiv'' \<and>
   arxiv_id paper_arxiv = Some ''1234'' \<and>
   initialPdfUrl (paper_fetched ''P1'' (Inr paper_arxiv) (paper_mount ''P1''))
     = Some ''https://arxiv.org/pdf/1234'' \<and>
   initialPdfUrl (paper_fetched ''B''
       (Inr (paper_pending\<lparr>source_type := Some ''pdf'', source_url := Some ''https://example.org/s.pdf''\<rparr>))
       (paper_mount ''B''))
     = Some ''https://example.org/s.pdf'' \<and>
   initialPdfUrl (paper_fetched ''B'' (Inr paper_pending) (paper_mount ''B'')) = None"
proof -
  have a: "truthy_str (pdf_url paper_A)"
    by (simp add: paper_A_def)
  have b: "\<not> truthy_str (pdf_url paper_arxiv) \<and> source_type paper_arxiv = Some ''arxiv'' \<and>
           arxiv_id paper_arxiv = Some ''1234'' \<and> ''1234'' \<noteq> []"
    and b': "pdf_url paper_arxiv = None"
    by (simp_all add: paper_arxiv_def)
  let ?s = "paper_pending\<lparr>source_type := Some ''pdf'', source_url := Some ''https://example.org/s.pdf''\<rparr>"
  have c: "\<not> truthy_str (pdf_url ?s) \<and> \<not> (source_type ?s = Some ''arxiv'' \<and> truthy_str (arxiv_id ?s)) \<and>
           source_type ?s = Some ''pdf''"
    and c': "source_url ?s = Some ''https://example.org/s.pdf''"
    by (simp_all add: paper_pending_def)
  have d: "\<not> truthy_str (pdf_url paper_pending) \<and>
           \<not> (source_type paper_pending = Some ''arxiv'' \<and> truthy_str (arxiv_id paper_pending)) \<and>
           source_type paper_pending \<noteq> Some ''pdf''"
    and d': "pdf_url paper_pending = None"
    by (simp_all add: paper_pending_def)
  from document_url_resolution [of "''A''" paper_A "paper_mount ''A''" "[]"] a
  have 1: "initialPdfUrl (paper_fetched ''A'' (Inr paper_A) (paper_mount ''A''))
             = Some ''https://example.org/a.pdf''"
    by (simp add: paper_A_def)
  from document_url_resolution [of "''P1''" paper_arxiv "paper_mount ''P1''" "''1234''"] b
  have 2: "initialPdfUrl (paper_fetched ''P1'' (Inr paper_arxiv) (paper_mount ''P1''))
             = Some ''https://arxiv.org/pdf/1234''"
    by simp
  from document_url_resolution [of "''B''" ?s "paper_mount ''B''" "[]"] c c'
  have 3: "initialPdfUrl (paper_fetched ''B'' (Inr ?s) (paper_mount ''B''))
             = Some ''https://example.org/s.pdf''"
    by metis
  from document_url_resolution [of "''B''" paper_pending "paper_mount ''B''" "[]"] d d'
  have 4: "initialPdfUrl (paper_fetched ''B'' (Inr paper_pending) (paper_mount ''B'')) = None"
    by metis
  from a b b' 1 2 3 4 show ?thesis by blast
qed

text \<open>
  As the specification states it, the property fails on a row whose \<^verbatim>\<open>pdf_url\<close> is
  the empty string and whose source is not recognised: the resolved value is the empty
  string, not null.
\<close>

theorem document_url_resolution_counterexample:
  "\<not> truthy_str (pdf_url (paper_pending\<lparr>pdf_url := Some []\<rparr>)) \<and>
   source_type (paper_pending\<lparr>pdf_url := Some []\<rparr>) = None \<and>
   initialPdfUrl (paper_fetched ''B'' (Inr (paper_pending\<lparr>pdf_url := Some []\<rparr>)) (paper_mount ''B''))
     \<noteq> None"
  by (simp add: paper_defs str_or_def Let_def)

text \<open>
  While the callback of the channel has closed over an empty \<^verbatim>\<open>initialPdfUrl\<close>, as it
  has for the first identifier of an instance, an UPDATE takes every column from the
  notification and the document URL from the current snapshot.
\<close>

lemma update_keeps_url_first_subscription:
  assumes "subscription h = Some (pid, closedUrl)" and "\<not> truthy_str closedUrl"
    and "paper h = Some currentPaper" and "paper_row_id row = pid"
  shows "paper (paper_updated row h) = Some (row\<lparr>pdf_url := pdf_url currentPaper\<rparr>)"
  using assms by (simp add: paper_updated_def str_or_def)

lemma mount_closes_over_null: "pid \<noteq> [] \<Longrightarrow> subscription (paper_mount pid) = Some (pid, None)"
  by (simp add: paper_mount_def paper_effect_def paper_hook_init_def)

text \<open>
  C6, the code at a failing run. The instance tracks paper \<open>A\<close>, whose fetch resolves
  \<^verbatim>\<open>https://example.org/a.pdf\<close>; the identifier changes to \<open>B\<close>, whose fetch resolves
  \<^verbatim>\<open>https://example.org/b.pdf\<close>. The callback subscribed for \<open>B\<close> has closed over the
  \<^verbatim>\<open>initialPdfUrl\<close> of \<open>A\<close>: an UPDATE notification for \<open>B\<close> replaces the resolved URL
  of \<open>B\<close> in the snapshot by the URL of \<open>A\<close>.
\<close>

theorem update_after_identifier_change_swaps_url:
  "map_option pdf_url (paper (paper_run ''A''
      [Fetched ''A'' (Inr paper_A), Render ''B'', Fetched ''B'' (Inr paper_B)]))
     = Some (Some ''https://example.org/b.pdf'') \<and>
   map_option pdf_url (paper (paper_run ''A''
      [Fetched ''A'' (Inr paper_A), Render ''B'', Fetched ''B'' (Inr paper_B),
       Updated (paper_B\<lparr>other_columns := [(''title'', JStr ''Paper B, revised'')]\<rparr>)]))
     = Some (Some ''https://example.org/a.pdf'') \<and>
   map_option paper_row_id (paper (paper_run ''A''
      [Fetched ''A'' (Inr paper_A), Render ''B'', Fetched ''B'' (Inr paper_B),
       Updated (paper_B\<lparr>other_columns := [(''title'', JStr ''Paper B, revised'')]\<rparr>)]))
     = Some ''B''"
  by (simp add: paper_defs str_or_def Let_def)

text \<open>
  C10, the code at a failing run. As above, but the fetch for \<open>B\<close> resolves no URL. An
  UPDATE notification for \<open>B\<close> that supplies a stored URL makes the snapshot's document
  URL the URL of \<open>A\<close>: it does not stay null.
\<close>

theorem null_url_replaced_after_identifier_change:
  "map_option pdf_url (paper (paper_run ''A''
      [Fetched ''A'' (Inr paper_A), Render ''B'', Fetched ''B'' (Inr paper_pending)]))
     = Some None \<and>
   map_option pdf_url (paper (paper_run ''A''
      [Fetched ''A'' (Inr paper_A), Render ''B'', Fetched ''B'' (Inr paper_pending),
       Updated (paper_pending\<lparr>pdf_url := Some ''https://example.org/b.pdf''\<rparr>)]))
     = Some (Some ''https://example.org/a.pdf'')"
  by (simp add: paper_defs str_or_def Let_def)

subsection \<open>Late responses\<close>

text \<open>
  C9, as amended. The continuation of a fetch applies its response whatever identifier
  the instance tracks when the response arrives: the snapshot becomes the fetched row
  with its resolved URL, the item lists become the transformed rows, and the tracked
  identifier and the channel stay as they are. The identifier of the request has no
  part in the result. Only notifications are tied to the tracked identifier: the
  channel of the previous identifier is removed when the identifier changes.
\<close>

theorem late_response_is_applied:
  "paper (paper_fetched requested (Inr row) h) = Some (row\<lparr>pdf_url := resolve_pdf_url row\<rparr>) \<and>
   paperId (paper_fetched requested (Inr row) h) = paperId h \<and>
   subscription (paper_fetched requested (Inr row) h) = subscription h \<and>
   paper_fetched requested response h = paper_fetched (paperId h) response h \<and>
   learningItems (items_fetched requested clk (Inr (Some rows)) s)
     = map (\<lambda>k. transformItem (clk k) (rows ! k)) [0..<length rows] \<and>
   items_fetched requested clk answer s = items_fetched requested' clk answer s \<and>
   subscription (paper_effect pid h) = (if pid = [] then None else Some (pid, initialPdfUrl h))"
proof -
  have "paper_fetched requested response h = paper_fetched (paperId h) response h"
    by (simp add: paper_fetched_def)
  moreover have "items_fetched requested clk answer s = items_fetched requested' clk answer s"
    by (simp add: items_fetched_def)
  ultimately show ?thesis
    by (simp add: paper_fetched_def Let_def learningItems_fetched paper_effect_def)
qed

theorem late_response_is_applied_witness:
  "paper (paper_fetched ''A'' (Inr paper_A)
      (paper_run ''A'' [Render ''B'', Fetched ''B'' (Inr paper_B)])) = Some paper_A \<and>
   paperId (paper_fetched ''A'' (Inr paper_A)
      (paper_run ''A'' [Render ''B'', Fetched ''B'' (Inr paper_B)])) = ''B''"
  using late_response_is_applied [of "''A''" paper_A
      "paper_run ''A'' [Render ''B'', Fetched ''B'' (Inr paper_B)]"]
  by (simp add: paper_defs str_or_def Let_def)

text \<open>
  As the specification states it, the property fails: the instance tracks \<open>A\<close>, then
  \<open>B\<close>; the response for \<open>B\<close> arrives, then the late response for \<open>A\<close>. The snapshot
  then shows paper \<open>A\<close> while the tracked identifier is \<open>B\<close>; likewise the late rows of
  another paper replace the item lists.
\<close>

theorem late_response_counterexample:
  "paperId (paper_run ''A''
      [Render ''B'', Fetched ''B'' (Inr paper_B), Fetched ''A'' (Inr paper_A)]) = ''B'' \<and>
   map_option paper_row_id (paper (paper_run ''A''
      [Render ''B'', Fetched ''B'' (Inr paper_B), Fetched ''A'' (Inr paper_A)])) = Some ''A'' \<and>
   map paper_id (learningItems (items_fetched ''P1'' (const_clock clock1) (Inr (Some [row_i1]))
      (items_fetched ''P2'' (const_clock clock1) (Inr (Some [row_i2\<lparr>paper_id := ''P2''\<rparr>]))
         items_init))) = [''P1'']"
  by (simp add: paper_defs item_defs)

section \<open>Properties of the video payload extraction\<close>

lemma map_of_set_prop: "map_of (set_prop k v kvs) k = Some v"
  by (induction kvs) auto

lemma itemId_tag_video: "opt_get (tag_video owner video) ''itemId'' = JStr owner"
  by (simp add: tag_video_def map_of_set_prop)

text \<open>Every descriptor carries the identifier of the owning item.\<close>

lemma extracted_videos_tagged:
  "extract_videos videoItem = Inr ds \<Longrightarrow>
   list_all (\<lambda>d. opt_get d ''itemId'' = JStr (item_id videoItem)) ds"
  unfolding extract_videos_def
  by (cases "locate_videos videoItem") (auto simp: list_all_iff itemId_tag_video)

lemma isArray_iff: "isArray v \<longleftrightarrow> (\<exists>vs. v = JArr vs)"
  by (cases v) auto

text \<open>
  Wherever the \<^verbatim>\<open>data.videos\<close> branch is not reached with a value that is no array, the
  loop body finds what the search of the specification finds.
\<close>

lemma locate_as_specified:
  assumes "\<not> (reaches_data_videos videoItem \<and> \<not> isArray (opt_get (data videoItem) ''videos''))"
  shows "locate_videos videoItem = JArr (spec_video_search videoItem)"
proof (cases "isArray (opt_get (metadata videoItem) ''videos'')")
  case True
  then obtain vs where "opt_get (metadata videoItem) ''videos'' = JArr vs"
    by (auto simp: isArray_iff)
  then show ?thesis
    by (simp add: locate_videos_def spec_video_search_def)
next
  case False
  then have m: "(case opt_get (metadata videoItem) ''videos'' of JArr vs \<Rightarrow> vs | _ \<Rightarrow> d) = d" for d
    by (cases "opt_get (metadata videoItem) ''videos''") auto
  have v: "(if isArray (videos videoItem) then videos videoItem else JArr [videos videoItem])
             = JArr (case videos videoItem of JArr vs \<Rightarrow> vs | v \<Rightarrow> [v])"
    by (cases "videos videoItem") auto
  have d: "opt_get (data videoItem) ''videos''
             = JArr (case opt_get (data videoItem) ''videos'' of JArr vs \<Rightarrow> vs | v \<Rightarrow> [v])"
    if "isArray (opt_get (data videoItem) ''videos'')"
    using that by (cases "opt_get (data videoItem) ''videos''") auto
  from assms False d show ?thesis
    unfolding locate_videos_def spec_video_search_def reaches_data_videos_def m v
    by auto
qed

lemma extraction_as_specified:
  assumes "\<not> (reaches_data_videos videoItem \<and> \<not> isArray (opt_get (data videoItem) ''videos''))"
  shows "extract_videos videoItem
           = Inr (map (tag_video (item_id videoItem)) (spec_video_search videoItem))"
  using locate_as_specified [OF assms] by (simp add: extract_videos_def)

text \<open>A truthy \<^verbatim>\<open>data.videos\<close> that is no array makes the loop body throw.\<close>

lemma data_videos_not_array_throws:
  "reaches_data_videos videoItem \<Longrightarrow> \<not> isArray (opt_get (data videoItem) ''videos'') \<Longrightarrow>
   extract_videos videoItem = Inl TypeError"
  by (cases "opt_get (data videoItem) ''videos''")
     (auto simp: extract_videos_def locate_videos_def reaches_data_videos_def)

lemmas video_defs =
  video_i9_def video_in_data_def video_solo_def video_bare_def transformItem_def baseItem_def
  clock1_def js_or_def str_or_def Let_def reaches_data_videos_def spec_video_search_def
  tag_video_def extract_videos_def locate_videos_def

text \<open>
  The scenario of the specification (an item \<open>i9\<close> with \<^verbatim>\<open>metadata.video\<close>, here also
  with a \<^verbatim>\<open>data.video\<close> that is not merged in), an array under \<^verbatim>\<open>data.videos\<close>, and an
  item with no payload.
\<close>

lemma video_extraction_examples:
  "extract_videos video_i9 = Inr [JObj [(''video_id'', JStr ''abc''), (''itemId'', JStr ''i9'')]]"
  "extract_videos video_in_data
     = Inr [JObj [(''video_id'', JStr ''xyz''), (''itemId'', JStr ''i7'')]]"
  "extract_videos video_bare = Inr []"
  by (simp_all add: video_defs)

text \<open>
  C7, the code at a failing input. The item \<open>i6\<close> carries a single video object under
  \<^verbatim>\<open>data.videos\<close> and nothing else. The search of the specification takes it as one
  video, as the sibling branch for \<^verbatim>\<open>videos\<close> on the item does by wrapping a single
  value in an array. The \<^verbatim>\<open>data.videos\<close> branch of the code assigns the object as it
  is, and \<^verbatim>\<open>videos.forEach\<close> throws: no descriptor is produced and an error is raised.
\<close>

theorem single_data_videos_throws:
  "reaches_data_videos video_solo \<and>
   opt_get (data video_solo) ''videos'' = JObj [(''video_id'', JStr ''solo'')] \<and>
   map (tag_video (item_id video_solo)) (spec_video_search video_solo)
     = [JObj [(''video_id'', JStr ''solo''), (''itemId'', JStr ''i6'')]] \<and>
   extract_videos video_solo = Inl TypeError"
  by (simp add: video_defs)

section \<open>Properties of the step filter\<close>

lemma classify_cases:
  "classify step = Inr (Some (ty, ord)) \<Longrightarrow>
   (ty, ord) \<in> {(''summary'', 1), (''concepts'', 2), (''methodology'', 3), (''results'', 4)}"
  by (auto simp: classify_def split: sum.splits bool.splits)

lemma collect_reading_kinds:
  "item \<in> set (collect_reading n steps) \<Longrightarrow>
   reading_kind (entry_step item) = Some (entry_type item, entry_order item)"
  by (induction steps arbitrary: n)
     (auto simp: reading_kind_def split: sum.splits option.splits)

lemma collect_reading_order_type:
  assumes "item \<in> set (collect_reading n steps)"
  shows "(entry_order item = 1 \<longleftrightarrow> entry_type item = ''summary'') \<and>
         (entry_order item = 2 \<longleftrightarrow> entry_type item = ''concepts'') \<and>
         (entry_order item = 3 \<longleftrightarrow> entry_type item = ''methodology'') \<and>
         (entry_order item = 4 \<longleftrightarrow> entry_type item = ''results'') \<and>
         entry_order item \<in> {1, 2, 3, 4}"
proof -
  from collect_reading_kinds [OF assms]
  have "classify (entry_step item) = Inr (Some (entry_type item, entry_order item))"
    by (auto simp: reading_kind_def split: sum.splits)
  from classify_cases [OF this] show ?thesis by auto
qed

lemma collect_reading_positions:
  "map (\<lambda>item. (entry_step item, entry_index item)) (collect_reading n steps)
   = filter (\<lambda>(step, index). reading_kind step \<noteq> None) (zip steps [n..<n + length steps])"
proof (induction steps arbitrary: n)
  case Nil
  then show ?case by simp
next
  case (Cons step steps)
  have u: "[n..<n + length (step # steps)] = n # [Suc n..<Suc n + length steps]"
    by (simp add: upt_rec)
  show ?case
    unfolding u using Cons.IH [of "Suc n"]
    by (auto simp: reading_kind_def split: sum.splits option.splits)
qed

lemma sorted_four_keys:
  fixes f :: "'a \<Rightarrow> nat"
  assumes "sorted (map f xs)" and "\<forall>x\<in>set xs. f x \<in> {1, 2, 3, 4}"
  shows "xs = filter (\<lambda>x. f x = 1) xs @ filter (\<lambda>x. f x = 2) xs @
              filter (\<lambda>x. f x = 3) xs @ filter (\<lambda>x. f x = 4) xs"
  using assms
proof (induction xs)
  case Nil
  then show ?case by simp
next
  case (Cons x xs)
  then have ih: "xs = filter (\<lambda>x. f x = 1) xs @ filter (\<lambda>x. f x = 2) xs @
                      filter (\<lambda>x. f x = 3) xs @ filter (\<lambda>x. f x = 4) xs"
    and le: "\<forall>y\<in>set xs. f x \<le> f y" and fx: "f x \<in> {1, 2, 3, 4}"
    by auto
  from fx consider "f x = 1" | "f x = 2" | "f x = 3" | "f x = 4" by auto
  then show ?case
  proof cases
    case 1
    with ih show ?thesis by simp
  next
    case 2
    with le have "filter (\<lambda>x. f x = 1) xs = []"
      by (auto simp: filter_empty_conv)
    with 2 ih show ?thesis by simp
  next
    case 3
    with le have "filter (\<lambda>x. f x = 1) xs = []" "filter (\<lambda>x. f x = 2) xs = []"
      by (auto simp: filter_empty_conv)
    with 3 ih show ?thesis by simp
  next
    case 4
    with le have "filter (\<lambda>x. f x = 1) xs = []" "filter (\<lambda>x. f x = 2) xs = []"
      "filter (\<lambda>x. f x = 3) xs = []"
      by (auto simp: filter_empty_conv)
    with 4 ih show ?thesis by simp
  qed
qed

lemma reading_sorted_by_kind:
  "sort_key entry_order (collect_reading 0 steps) =
     filter (\<lambda>item. entry_type item = ''summary'') (collect_reading 0 steps) @
     filter (\<lambda>item. entry_type item = ''concepts'') (collect_reading 0 steps) @
     filter (\<lambda>item. entry_type item = ''methodology'') (collect_reading 0 steps) @
     filter (\<lambda>item. entry_type item = ''results'') (collect_reading 0 steps)"
proof -
  let ?cs = "collect_reading 0 steps"
  let ?es = "sort_key entry_order ?cs"
  have "entry_order item \<in> {1, 2, 3, 4}" if "item \<in> set ?cs" for item
    using collect_reading_order_type [OF that] by blast
  then have "\<forall>item\<in>set ?es. entry_order item \<in> {1, 2, 3, 4}"
    unfolding set_sort by blast
  then have "?es = filter (\<lambda>x. entry_order x = 1) ?es @ filter (\<lambda>x. entry_order x = 2) ?es @
                   filter (\<lambda>x. entry_order x = 3) ?es @ filter (\<lambda>x. entry_order x = 4) ?es"
    by (intro sorted_four_keys) simp_all
  then have "?es = filter (\<lambda>x. entry_order x = 1) ?cs @ filter (\<lambda>x. entry_order x = 2) ?cs @
                   filter (\<lambda>x. entry_order x = 3) ?cs @ filter (\<lambda>x. entry_order x = 4) ?cs"
    by (simp only: sort_key_stable)
  moreover have "filter (\<lambda>x. entry_order x = 1) ?cs = filter (\<lambda>x. entry_type x = ''summary'') ?cs"
    by (rule filter_cong) (use collect_reading_order_type [of _ 0 steps] in auto)
  moreover have "filter (\<lambda>x. entry_order x = 2) ?cs = filter (\<lambda>x. entry_type x = ''concepts'') ?cs"
    by (rule filter_cong) (use collect_reading_order_type [of _ 0 steps] in auto)
  moreover have "filter (\<lambda>x. entry_order x = 3) ?cs = filter (\<lambda>x. entry_type x = ''methodology'') ?cs"
    by (rule filter_cong) (use collect_reading_order_type [of _ 0 steps] in auto)
  moreover have "filter (\<lambda>x. entry_order x = 4) ?cs = filter (\<lambda>x. entry_type x = ''results'') ?cs"
    by (rule filter_cong) (use collect_reading_order_type [of _ 0 steps] in auto)
  ultimately show ?thesis by simp
qed

lemma selected_element: "is_element step \<Longrightarrow> \<exists>b. selected activeFilter step = Inr b"
proof (cases step)
  case (Element c t children)
  have "\<exists>b. type_name_is name (Element c t children) = Inr b" for name
    by (cases c) auto
  with Element show ?thesis
    by (cases activeFilter) (auto simp: matches_kind_def)
qed simp_all

lemma collect_matching_elements:
  assumes "activeFilter = Slides \<or> list_all is_element steps"
    and "activeFilter \<noteq> All"
  shows "collect_matching activeFilter n steps
         = Inr (filter (\<lambda>(step, index). activeFilter = All \<or> selected activeFilter step = Inr True)
                  (zip steps [n..<n + length steps]))"
  using assms(1)
proof (induction steps arbitrary: n)
  case Nil
  then show ?case by simp
next
  case (Cons step steps)
  have u: "[n..<n + length (step # steps)] = n # [Suc n..<Suc n + length steps]"
    by (simp add: upt_rec)
  from Cons.prems have "activeFilter = Slides \<or> list_all is_element steps"
    by auto
  from Cons.IH [OF this, of "Suc n"]
  have ih: "collect_matching activeFilter (Suc n) steps
         = Inr (filter (\<lambda>(step, index). activeFilter = All \<or> selected activeFilter step = Inr True)
                  (zip steps [Suc n..<Suc n + length steps]))" .
  from Cons.prems obtain b where b: "selected activeFilter step = Inr b"
    using selected_element [of step activeFilter] by (cases "activeFilter = Slides") auto
  show ?case
    unfolding u using ih b assms(2) by simp
qed

text \<open>
  C8. Under the reading filter, the result lists the steps classified as summary, then
  those classified as key concepts, then methodology, then results, each group in the
  original order of its steps, with the original positions; the classified steps are
  the steps to which the chain gives a kind, and nothing else is in the result. Under
  every other filter (on steps that are elements, which the condition of the loop can
  inspect) the result is the sub-list of the steps that satisfy the condition of the
  filter, in their original order and with their original positions; the filter
  \<^verbatim>\<open>all\<close> keeps every step.
\<close>

theorem reading_filter_reorders:
  "filter_steps Reading steps =
     Inr (map (\<lambda>item. (entry_step item, entry_index item))
       (filter (\<lambda>item. entry_type item = ''summary'') (collect_reading 0 steps) @
        filter (\<lambda>item. entry_type item = ''concepts'') (collect_reading 0 steps) @
        filter (\<lambda>item. entry_type item = ''methodology'') (collect_reading 0 steps) @
        filter (\<lambda>item. entry_type item = ''results'') (collect_reading 0 steps))) \<and>
   map (\<lambda>item. (entry_step item, entry_index item)) (collect_reading 0 steps)
     = filter (\<lambda>(step, index). reading_kind step \<noteq> None) (zip steps [0..<length steps]) \<and>
   list_all (\<lambda>item. reading_kind (entry_step item) = Some (entry_type item, entry_order item))
     (collect_reading 0 steps) \<and>
   (activeFilter \<noteq> Reading \<and>
    (activeFilter = All \<or> activeFilter = Slides \<or> list_all is_element steps) \<longrightarrow>
      filter_steps activeFilter steps
        = Inr (filter (\<lambda>(step, index). activeFilter = All \<or> selected activeFilter step = Inr True)
                 (zip steps [0..<length steps])))"
proof (intro conjI impI)
  show "filter_steps Reading steps =
     Inr (map (\<lambda>item. (entry_step item, entry_index item))
       (filter (\<lambda>item. entry_type item = ''summary'') (collect_reading 0 steps) @
        filter (\<lambda>item. entry_type item = ''concepts'') (collect_reading 0 steps) @
        filter (\<lambda>item. entry_type item = ''methodology'') (collect_reading 0 steps) @
        filter (\<lambda>item. entry_type item = ''results'') (collect_reading 0 steps)))"
    by (simp only: filter_steps_def reading_sorted_by_kind) simp
  show "map (\<lambda>item. (entry_step item, entry_index item)) (collect_reading 0 steps)
     = filter (\<lambda>(step, index). reading_kind step \<noteq> None) (zip steps [0..<length steps])"
    using collect_reading_positions [of 0 steps] by simp
  show "list_all (\<lambda>item. reading_kind (entry_step item) = Some (entry_type item, entry_order item))
     (collect_reading 0 steps)"
    by (simp add: list_all_iff collect_reading_kinds)
next
  assume h: "activeFilter \<noteq> Reading \<and>
    (activeFilter = All \<or> activeFilter = Slides \<or> list_all is_element steps)"
  show "filter_steps activeFilter steps
        = Inr (filter (\<lambda>(step, index). activeFilter = All \<or> selected activeFilter step = Inr True)
                 (zip steps [0..<length steps]))"
  proof (cases "activeFilter = All")
    case True
    then show ?thesis by (simp add: filter_steps_def)
  next
    case False
    with h have "activeFilter = Slides \<or> list_all is_element steps" by blast
    from collect_matching_elements [OF this False, of 0] h False show ?thesis
      by (simp add: filter_steps_def)
  qed
qed

lemmas step_defs =
  Summary_def VideoStep_def Results_def Concepts_def classify_def matches_kind_def
  reading_kind_def

theorem reading_filter_reorders_witness:
  "filter_steps Reading [Summary, VideoStep, Results, Concepts]
     = Inr [(Summary, 0), (Concepts, 3), (Results, 2)] \<and>
   list_all is_element [Summary, VideoStep, Results, Concepts] \<and>
   filter_steps Video [Summary, VideoStep, Results, Concepts] = Inr [(VideoStep, 1)] \<and>
   filter_steps All [Summary, VideoStep, Results, Concepts]
     = Inr [(Summary, 0), (VideoStep, 1), (Results, 2), (Concepts, 3)]"
proof -
  let ?steps = "[Summary, VideoStep, Results, Concepts]"
  have cs: "collect_reading 0 ?steps =
     [\<lparr>entry_step = Summary, entry_index = 0, entry_type = ''summary'', entry_order = 1\<rparr>,
      \<lparr>entry_step = Results, entry_index = 2, entry_type = ''results'', entry_order = 4\<rparr>,
      \<lparr>entry_step = Concepts, entry_index = 3, entry_type = ''concepts'', entry_order = 2\<rparr>]"
    by (simp add: step_defs)
  have el: "list_all is_element ?steps"
    by (simp add: step_defs)
  have z: "zip ?steps [0..<length ?steps]
             = [(Summary, 0), (VideoStep, 1), (Results, 2), (Concepts, 3)]"
    by (simp add: upt_rec)
  have v: "filter (\<lambda>(step, index). Video = All \<or> selected Video step = Inr True)
             [(Summary, 0), (VideoStep, 1), (Results, 2), (Concepts, 3)] = [(VideoStep, 1)]"
    by (simp add: step_defs)
  from reading_filter_reorders [of ?steps Video]
  have 1: "filter_steps Reading ?steps = Inr [(Summary, 0), (Concepts, 3), (Results, 2)]"
    unfolding cs by simp
  from reading_filter_reorders [of ?steps Video] el
  have "filter_steps Video ?steps
          = Inr (filter (\<lambda>(step, index). Video = All \<or> selected Video step = Inr True)
                   (zip ?steps [0..<length ?steps]))"
    by blast
  then have 2: "filter_steps Video ?steps = Inr [(VideoStep, 1)]"
    unfolding z v .
  from reading_filter_reorders [of ?steps All]
  have 3: "filter_steps All ?steps = Inr [(Summary, 0), (VideoStep, 1), (Results, 2), (Concepts, 3)]"
    unfolding z by simp
  from 1 2 3 el show ?thesis by blast
qed

end
